theory Spec2Isabelle
  imports Complex_Main
begin

section \<open>Piecewise cubic Bezier fitting (osu\_dreamer/signal/fit\_bezier.py)\<close>

text \<open>
  The source works on numpy arrays of double-precision numbers. The model works on
  \<^typ>\<open>real\<close>: a point is a pair of reals, an array of shape \<open>(L,2)\<close> a list of
  points and an array of shape \<open>(L,)\<close> a list of reals. The arithmetic of the
  model is exact: the rounding, the underflow and the overflow of the doubles are not
  modelled, so that a statement about all inputs is one about the exact computation,
  and the statements about the code itself are evaluations at inputs on which the
  doubles compute exactly. Two places where the source leaves the finite numbers are
  modelled: the quotient \<open>0/0\<close> of the chord-length normalisation at a total chord
  length of \<open>0\<close> (the value \<open>NaNs\<close> below), and the OverflowError of the Python
  power \<open>max_err ** 2\<close> (\<open>square_overflows\<close> below).
\<close>

subsection \<open>Vectors\<close>

type_synonym point = "real \<times> real"

definition vadd :: "point \<Rightarrow> point \<Rightarrow> point" where
  "vadd a b = (fst a + fst b, snd a + snd b)"

definition vsub :: "point \<Rightarrow> point \<Rightarrow> point" where
  "vsub a b = (fst a - fst b, snd a - snd b)"

definition smul :: "real \<Rightarrow> point \<Rightarrow> point" where
  "smul c a = (c * fst a, c * snd a)"

definition vdiv :: "point \<Rightarrow> real \<Rightarrow> point" where
  "vdiv a c = (fst a / c, snd a / c)"

definition vneg :: "point \<Rightarrow> point" where
  "vneg a = (- fst a, - snd a)"

definition dot :: "point \<Rightarrow> point \<Rightarrow> real" where
  "dot a b = fst a * fst b + snd a * snd b"

text \<open>\<open>np.linalg.norm\<close> of a vector of two components.\<close>

definition norm2 :: "point \<Rightarrow> real" where
  "norm2 a = sqrt (dot a a)"

text \<open>\<open>np.finfo(float).eps\<close>, the spacing of the doubles at 1.\<close>

definition float_eps :: real where
  "float_eps = 1 / 2 ^ 52"

text \<open>
  \<^verbatim>\<open>
  def normalize(v):
      magnitude = np.sqrt(np.dot(v,v))
      if magnitude < np.finfo(float).eps:
          return v
      return v / magnitude
  \<close>
  Exact arithmetic: where \<open>np.dot(v,v)\<close> overflows to infinity in the source (components
  near \<open>1e200\<close>), the model has the unit vector.
\<close>

definition normalize :: "point \<Rightarrow> point" where
  "normalize v =
     (let magnitude = sqrt (dot v v)
      in if magnitude < float_eps then v else vdiv v magnitude)"

subsection \<open>Evaluation of a curve and of its derivatives\<close>

text \<open>
  Modelled from the spec: \<open>bezier.Curve.from_nodes(nodes).evaluate_multi(t)\<close> belongs
  to the third-party package \<open>bezier\<close>, which is not part of the repository. For
  \<open>n + 1\<close> nodes it evaluates the curve of degree \<open>n\<close> with these control points;
  the model is the sum over the Bernstein basis
  \<open>(n choose i) * (1 - t)^(n - i) * t^i\<close>, for any number of nodes.
\<close>

fun bernstein_sum :: "nat \<Rightarrow> nat \<Rightarrow> real \<Rightarrow> point list \<Rightarrow> point" where
  "bernstein_sum n i t [] = (0, 0)"
| "bernstein_sum n i t (p # ps) =
     vadd (smul (real (n choose i) * (1 - t) ^ (n - i) * t ^ i) p)
          (bernstein_sum n (Suc i) t ps)"

definition evaluate :: "point list \<Rightarrow> real \<Rightarrow> point" where
  "evaluate nodes t = bernstein_sum (length nodes - 1) 0 t nodes"

definition evaluate_multi :: "point list \<Rightarrow> real list \<Rightarrow> point list" where
  "evaluate_multi nodes ts = map (evaluate nodes) ts"

text \<open>
  \<^verbatim>\<open>
  def hodo(p: "N,2"):
      return p.shape[0] * (p[1:] - p[:-1])
  \<close>
  \<open>p[1:] - p[:-1]\<close> is the array of the differences of consecutive rows, and
  \<open>p.shape[0]\<close> the number of rows of \<open>p\<close>.
\<close>

definition hodo :: "point list \<Rightarrow> point list" where
  "hodo p = map (\<lambda>(b, a). smul (real (length p)) (vsub b a)) (zip (tl p) (butlast p))"

definition q :: "point list \<Rightarrow> real list \<Rightarrow> point list" where
  "q p t = evaluate_multi p t"

definition qprime :: "point list \<Rightarrow> real list \<Rightarrow> point list" where
  "qprime p t = evaluate_multi (hodo p) t"

definition qprimeprime :: "point list \<Rightarrow> real list \<Rightarrow> point list" where
  "qprimeprime p t = evaluate_multi (hodo (hodo p)) t"

subsection \<open>One Newton-Raphson step for every parameter\<close>

text \<open>
  \<^verbatim>\<open>
  d = q(bez, u) - points
  qp = qprime(bez, u)
  num = (d * qp).sum(-1)
  den = (qp**2 + d*qprimeprime(bez, u)).sum(-1)
  return u + np.where(den==0, 0, num/den)
  \<close>
  All arrays have the length of \<open>u\<close>; \<open>np.where\<close> selects \<open>0\<close> where the
  denominator is zero and the quotient elsewhere.
\<close>

definition newton_num :: "point list \<Rightarrow> point \<Rightarrow> real \<Rightarrow> real" where
  "newton_num bez p ui = dot (vsub (evaluate bez ui) p) (evaluate (hodo bez) ui)"

definition newton_den :: "point list \<Rightarrow> point \<Rightarrow> real \<Rightarrow> real" where
  "newton_den bez p ui =
     dot (evaluate (hodo bez) ui) (evaluate (hodo bez) ui)
     + dot (vsub (evaluate bez ui) p) (evaluate (hodo (hodo bez)) ui)"

definition newton_raphson_root_find :: "point list \<Rightarrow> point list \<Rightarrow> real list \<Rightarrow> real list" where
  "newton_raphson_root_find bez points u =
     (let d = map2 vsub (q bez u) points;
          qp = qprime bez u;
          num = map2 dot d qp;
          den = map2 (+) (map2 dot qp qp) (map2 dot d (qprimeprime bez u))
      in map2 (+) u (map2 (\<lambda>n dn. if dn = 0 then 0 else n / dn) num den))"

subsection \<open>Least-squares fit of one curve\<close>

datatype error = IndexError | TypeError | UnboundLocalError | OverflowError

text \<open>
  \<^verbatim>\<open>
  def generate_bezier(points, u, left_tangent, right_tangent):
      bez_curve = np.array([points[0], points[0], points[-1], points[-1]])
      A = (3 * (1-u) * u * np.array([1-u,u])).T[..., None] * np.array([left_tangent, right_tangent])
      C = np.einsum('lix,ljx->ij', A, A)
      X = np.einsum('lix,lx->i', A, points - q(bez_curve, u))
      det_C0_C1 = C[0][0] * C[1][1] - C[1][0] * C[0][1]
      det_C0_X  = C[0][0] * X[1]    - C[1][0] * X[0]
      det_X_C1  = X[0]    * C[1][1] - X[1]    * C[0][1]
      alpha_l = 0.0 if abs(det_C0_C1) < 1e-5 else det_X_C1 / det_C0_C1
      alpha_r = 0.0 if abs(det_C0_C1) < 1e-5 else det_C0_X / det_C0_C1
      seg_len = np.linalg.norm(points[0] - points[-1])
      epsilon = 1e-6 * seg_len
      if alpha_l < epsilon or alpha_r < epsilon:
          bez_curve[1] += left_tangent * (seg_len / 3.0)
          bez_curve[2] += right_tangent * (seg_len / 3.0)
      else:
          bez_curve[1] += left_tangent * alpha_l
          bez_curve[2] += right_tangent * alpha_r
      return bez_curve
  \<close>
  \<open>A[l]\<close> is the pair of vectors \<open>3(1-u\<^sub>l)u\<^sub>l(1-u\<^sub>l) * left_tangent\<close> and
  \<open>3(1-u\<^sub>l)u\<^sub>l u\<^sub>l * right_tangent\<close>; the two \<open>einsum\<close> calls sum scalar products over
  \<open>l\<close>. \<open>points\<close> and \<open>u\<close> have one length. \<open>points[0]\<close> raises IndexError on an
  empty array. The constants \<open>1e-5\<close> and \<open>1e-6\<close> are the reals \<open>1/10^5\<close> and \<open>1/10^6\<close>.
  Exact arithmetic: in the source the sum of an end point and an offset is rounded, and
  is the end point itself where the offset is below half a unit in its last place.
\<close>

definition A_left :: "point \<Rightarrow> real \<Rightarrow> point" where
  "A_left left_tangent ul = smul (3 * (1 - ul) * ul * (1 - ul)) left_tangent"

definition A_right :: "point \<Rightarrow> real \<Rightarrow> point" where
  "A_right right_tangent ul = smul (3 * (1 - ul) * ul * ul) right_tangent"

definition C_matrix :: "point \<Rightarrow> point \<Rightarrow> real list \<Rightarrow> (real \<times> real) \<times> (real \<times> real)" where
  "C_matrix lt rt u =
     ((sum_list (map (\<lambda>ul. dot (A_left lt ul) (A_left lt ul)) u),
       sum_list (map (\<lambda>ul. dot (A_left lt ul) (A_right rt ul)) u)),
      (sum_list (map (\<lambda>ul. dot (A_right rt ul) (A_left lt ul)) u),
       sum_list (map (\<lambda>ul. dot (A_right rt ul) (A_right rt ul)) u)))"

definition X_vector :: "point \<Rightarrow> point \<Rightarrow> point list \<Rightarrow> point list \<Rightarrow> real list \<Rightarrow> real \<times> real" where
  "X_vector lt rt bez_curve points u =
     (let r = map2 vsub points (q bez_curve u)
      in (sum_list (map2 (\<lambda>ul rl. dot (A_left lt ul) rl) u r),
          sum_list (map2 (\<lambda>ul rl. dot (A_right rt ul) rl) u r)))"

definition det_C0_C1 :: "point \<Rightarrow> point \<Rightarrow> real list \<Rightarrow> real" where
  "det_C0_C1 lt rt u =
     (let C = C_matrix lt rt u in fst (fst C) * snd (snd C) - fst (snd C) * snd (fst C))"

definition alphas :: "point list \<Rightarrow> real list \<Rightarrow> point \<Rightarrow> point \<Rightarrow> real \<times> real" where
  "alphas points u left_tangent right_tangent =
     (let bez_curve = [hd points, hd points, last points, last points];
          C = C_matrix left_tangent right_tangent u;
          X = X_vector left_tangent right_tangent bez_curve points u;
          det = det_C0_C1 left_tangent right_tangent u;
          det_C0_X = fst (fst C) * snd X - fst (snd C) * fst X;
          det_X_C1 = fst X * snd (snd C) - snd X * snd (fst C);
          alpha_l = (if \<bar>det\<bar> < 1 / 10 ^ 5 then 0 else det_X_C1 / det);
          alpha_r = (if \<bar>det\<bar> < 1 / 10 ^ 5 then 0 else det_C0_X / det)
      in (alpha_l, alpha_r))"

definition seg_len :: "point list \<Rightarrow> real" where
  "seg_len points = norm2 (vsub (hd points) (last points))"

definition generate_bezier ::
  "point list \<Rightarrow> real list \<Rightarrow> point \<Rightarrow> point \<Rightarrow> error + point list" where
  "generate_bezier points u left_tangent right_tangent =
     (if points = [] then Inl IndexError
      else
        let (alpha_l, alpha_r) = alphas points u left_tangent right_tangent;
            epsilon = 1 / 10 ^ 6 * seg_len points
        in if alpha_l < epsilon \<or> alpha_r < epsilon
           then Inr [hd points,
                     vadd (hd points) (smul (seg_len points / 3) left_tangent),
                     vadd (last points) (smul (seg_len points / 3) right_tangent),
                     last points]
           else Inr [hd points,
                     vadd (hd points) (smul alpha_l left_tangent),
                     vadd (last points) (smul alpha_r right_tangent),
                     last points])"

subsection \<open>The fit driver\<close>

text \<open>
  \<^verbatim>\<open>
  weights = (lambda x,n: (float(x)**-np.arange(1,n+1)) / (1 - float(x)**-n) * (x-1))(2, min(10, len(points)-2))
  \<close>
  \<open>np.arange(1,n+1)\<close> is empty for \<open>n \<le> 0\<close>; the division by \<open>1 - 2**-0 = 0\<close> then has
  no element to act on.
\<close>

definition weights_of :: "real \<Rightarrow> int \<Rightarrow> real list" where
  "weights_of x n =
     map (\<lambda>k. (1 / x ^ k) / (1 - (if 0 \<le> n then 1 / x ^ nat n else x ^ nat (- n))) * (x - 1))
         [1..<nat (n + 1)]"

definition weights :: "point list \<Rightarrow> real list" where
  "weights points = weights_of 2 (min 10 (int (length points) - 2))"

text \<open>\<open>np.einsum('np,n->p', vecs, weights)\<close>: the sum of the vectors, each times its weight.\<close>

definition weighted_sum :: "point list \<Rightarrow> real list \<Rightarrow> point" where
  "weighted_sum vecs ws = foldr vadd (map2 (\<lambda>v w. smul w v) vecs ws) (0, 0)"

text \<open>
  \<^verbatim>\<open>
  l_vecs = points[2:2+len(weights)] - points[1]
  left_tangent = normalize(np.einsum('np,n->p', l_vecs, weights))
  r_vecs = points[-3:-3-len(weights):-1] - points[-2]
  right_tangent = normalize(np.einsum('np,n->p', r_vecs, weights))
  \<close>
  With \<open>N = len(weights) \<le> len(points) - 2\<close>, the slice \<open>points[-3:-3-N:-1]\<close> holds the
  \<open>N\<close> rows from the third last backwards, which are rows 2 to \<open>N + 1\<close> of the reversed
  array, and \<open>points[-2]\<close> is row 1 of the reversed array. \<open>points[1]\<close> and
  \<open>points[-2]\<close> raise IndexError when there are fewer than 2 rows.
\<close>

definition estimate_left_tangent :: "point list \<Rightarrow> error + point" where
  "estimate_left_tangent points =
     (if length points < 2 then Inl IndexError
      else
        let w = weights points;
            l_vecs = map (\<lambda>p. vsub p (points ! 1)) (take (length w) (drop 2 points))
        in Inr (normalize (weighted_sum l_vecs w)))"

definition estimate_right_tangent :: "point list \<Rightarrow> error + point" where
  "estimate_right_tangent points =
     (if length points < 2 then Inl IndexError
      else
        let w = weights points;
            r_vecs = map (\<lambda>p. vsub p (rev points ! 1)) (take (length w) (drop 2 (rev points)))
        in Inr (normalize (weighted_sum r_vecs w)))"

text \<open>
  \<^verbatim>\<open>
  u = [0]
  u[1:] = np.cumsum(np.linalg.norm(points[1:] - points[:-1], axis=1))
  u /= u[-1]
  \<close>
  \<open>u\<close> is a Python list until the division. With fewer than 2 points it is \<open>[0]\<close>, its
  last element is the Python integer 0, and a list divided by an integer raises TypeError.
  Otherwise the last element is a numpy double, the total chord length, and the division
  is numpy's, element by element: no exception, and for a total of \<open>0\<close> (when all the
  points are one point, so that every cumulative sum is \<open>0\<close>) each quotient is \<open>0/0\<close>,
  that is NaN. \<open>NaNs\<close> is the array whose elements are all NaN. Exact arithmetic:
  the total is \<open>0\<close> in the model only when all the points are one point, while in the
  source the squares under the norm can underflow to \<open>0\<close> or overflow to infinity for
  distinct points whose distances are below about \<open>1e-162\<close> or above about \<open>1e154\<close>;
  the parameters are then NaN, or partly NaN, where the model has numbers.
\<close>

datatype params = Params "real list" | NaNs

fun cumsum_from :: "real \<Rightarrow> real list \<Rightarrow> real list" where
  "cumsum_from acc [] = []"
| "cumsum_from acc (x # xs) = (acc + x) # cumsum_from (acc + x) xs"

definition chord_lengths :: "point list \<Rightarrow> real list" where
  "chord_lengths points =
     0 # cumsum_from 0 (map (\<lambda>(b, a). norm2 (vsub b a)) (zip (tl points) (butlast points)))"

definition chord_parameterize :: "point list \<Rightarrow> error + params" where
  "chord_parameterize points =
     (if length points < 2 then Inl TypeError
      else
        let u = chord_lengths points
        in if last u = 0 then Inr NaNs else Inr (Params (map (\<lambda>c. c / last u) u)))"

text \<open>\<open>errs.argmax()\<close>: the first index where the maximum is attained.\<close>

fun argmax :: "real list \<Rightarrow> nat" where
  "argmax [] = 0"
| "argmax (x # xs) = (if \<forall>y \<in> set xs. y \<le> x then 0 else Suc (argmax xs))"

text \<open>
  One round of the loop of \<open>fit_bezier\<close>, from the parameters \<open>u\<close> of the round on:
  \<^verbatim>\<open>
  bez_curve = generate_bezier(points, u, left_tangent, right_tangent)
  errs = ((q(bez_curve, u) - points) ** 2).sum(-1)
  split_point = errs.argmax()
  err = errs[split_point]
  if err < max_err:
      return [bez_curve]
  if err > max_err ** 2:
      break
  \<close>
  \<open>max_err\<close> is a Python float, and the power \<open>max_err ** 2\<close> of Python floats raises
  OverflowError when the square is no finite double: the doubles end at
  \<open>2^1024 - 2^971\<close>, and a square from \<open>2^1024 - 2^970\<close> on, half a step above, rounds
  to infinity (\<open>max_err\<close> above about \<open>1.34e154\<close>). The power is evaluated only when
  \<open>err < max_err\<close> is false.
\<close>

definition square_overflows :: "real \<Rightarrow> bool" where
  "square_overflows x \<longleftrightarrow> 2 ^ 1024 - 2 ^ 970 \<le> x ^ 2"

datatype round_result =
    Return "point list"
  | Break nat
  | Continue "point list" "real list" nat

definition sq_errors :: "point list \<Rightarrow> real list \<Rightarrow> point list \<Rightarrow> real list" where
  "sq_errors bez_curve u points =
     map2 (\<lambda>a b. dot (vsub a b) (vsub a b)) (q bez_curve u) points"

definition fit_round ::
  "point list \<Rightarrow> real \<Rightarrow> point \<Rightarrow> point \<Rightarrow> real list \<Rightarrow> error + round_result" where
  "fit_round points max_err left_tangent right_tangent u =
     (case generate_bezier points u left_tangent right_tangent of
        Inl e \<Rightarrow> Inl e
      | Inr bez_curve \<Rightarrow>
          let errs = sq_errors bez_curve u points;
              split_point = argmax errs;
              err = errs ! split_point
          in if err < max_err then Inr (Return bez_curve)
             else if square_overflows max_err then Inl OverflowError
             else if err > max_err ^ 2 then Inr (Break split_point)
             else Inr (Continue bez_curve u split_point))"

text \<open>
  The variables of the loop between two rounds: \<open>u is None\<close> before the first round,
  then the curve, the parameters and the split point of the last round. \<open>NaNVars\<close>
  is the state in which \<open>u\<close> is the all-NaN array: every number computed from it is
  NaN (the new parameters of \<open>newton_raphson_root_find\<close>, the inner control points of
  the curve, every entry of \<open>errs\<close>), \<open>argmax\<close> of an array of NaN is \<open>0\<close>, and both
  comparisons of \<open>err\<close> are false, so that the round neither returns nor breaks;
  between the two comparisons \<open>max_err ** 2\<close> is evaluated, and raises when it overflows.
\<close>

datatype loop_vars = Unset | Vars "point list" "real list" nat | NaNVars

text \<open>
  The loop is left by \<open>return [bez_curve]\<close>, or for the subdivision at
  \<open>split_point\<close>: by \<open>break\<close>, or because the range of 32 rounds is used up.
\<close>

datatype leave = ByBreak | ByExhaustion

datatype loop_exit = Success "point list" | Subdivide leave nat

text \<open>
  \<^verbatim>\<open>
  if u is None:
      u = [0]; u[1:] = np.cumsum(...); u /= u[-1]
  else:
      u = newton_raphson_root_find(bez_curve, points, u)
  \<close>
\<close>

fun next_params :: "point list \<Rightarrow> loop_vars \<Rightarrow> error + params" where
  "next_params points Unset = chord_parameterize points"
| "next_params points (Vars bez_curve u split_point) =
     Inr (Params (newton_raphson_root_find bez_curve points u))"
| "next_params points NaNVars = Inr NaNs"

text \<open>
  \<open>refine k\<close> is the rest of \<open>for _ in range(32)\<close> when \<open>k\<close> rounds remain. When
  the range is used up the code goes on with the \<open>split_point\<close> of the last round (a
  name that is unbound if there was no round).
\<close>

fun refine ::
  "nat \<Rightarrow> point list \<Rightarrow> real \<Rightarrow> point \<Rightarrow> point \<Rightarrow> loop_vars \<Rightarrow> error + loop_exit" where
  "refine 0 points max_err lt rt vars =
     (case vars of
        Unset \<Rightarrow> Inl UnboundLocalError
      | Vars bez_curve u split_point \<Rightarrow> Inr (Subdivide ByExhaustion split_point)
      | NaNVars \<Rightarrow> Inr (Subdivide ByExhaustion 0))"
| "refine (Suc k) points max_err lt rt vars =
     (case next_params points vars of
        Inl e \<Rightarrow> Inl e
      | Inr NaNs \<Rightarrow>
          if square_overflows max_err then Inl OverflowError
          else refine k points max_err lt rt NaNVars
      | Inr (Params u) \<Rightarrow>
          (case fit_round points max_err lt rt u of
             Inl e \<Rightarrow> Inl e
           | Inr (Return bez_curve) \<Rightarrow> Inr (Success bez_curve)
           | Inr (Break split_point) \<Rightarrow> Inr (Subdivide ByBreak split_point)
           | Inr (Continue bez_curve u' split_point) \<Rightarrow>
               refine k points max_err lt rt (Vars bez_curve u' split_point)))"

text \<open>
  \<^verbatim>\<open>
  if len(points) == 2:
      dist = np.linalg.norm(points[0] - points[1]) / 3.0
      return [[points[0], points[0] + left_tangent * dist,
               points[1] + right_tangent * dist, points[1]]]
  \<close>
\<close>

definition two_point_curve :: "point list \<Rightarrow> point \<Rightarrow> point \<Rightarrow> point list" where
  "two_point_curve points left_tangent right_tangent =
     (let dist = norm2 (vsub (points ! 0) (points ! 1)) / 3
      in [points ! 0,
          vadd (points ! 0) (smul dist left_tangent),
          vadd (points ! 1) (smul dist right_tangent),
          points ! 1])"

text \<open>
  \<^verbatim>\<open>
  center_tangent = normalize(points[split_point-1] - points[split_point+1])
  \<close>
  The index \<open>split_point - 1\<close> is \<open>-1\<close>, the last row, when \<open>split_point\<close> is \<open>0\<close>;
  \<open>split_point + 1\<close> raises IndexError when \<open>split_point\<close> is the last index.
\<close>

definition center_tangent_at :: "point list \<Rightarrow> nat \<Rightarrow> error + point" where
  "center_tangent_at points split_point =
     (if length points \<le> split_point + 1 then Inl IndexError
      else Inr (normalize (vsub (points ! (if split_point = 0 then length points - 1
                                            else split_point - 1))
                                (points ! (split_point + 1)))))"

definition tangent_or :: "point option \<Rightarrow> error + point \<Rightarrow> error + point" where
  "tangent_or given estimated = (case given of None \<Rightarrow> estimated | Some t \<Rightarrow> Inr t)"

text \<open>
  The subdivision at the end of \<open>fit_bezier\<close>, with \<open>fit\<close> for the recursive calls:
  \<^verbatim>\<open>
  center_tangent = normalize(points[split_point-1] - points[split_point+1])
  return [
      *fit_bezier(points[:split_point+1], max_err, left_tangent, center_tangent),
      *fit_bezier(points[split_point:], max_err, -center_tangent, right_tangent),
  ]
  \<close>
  The first call is made first, and an exception of the first call leaves the second
  one out. A result is \<open>None\<close> when the bound on the depth of the recursion was reached,
  \<open>Some (Inl e)\<close> when the call raises \<open>e\<close>, \<open>Some (Inr curves)\<close> when it returns
  \<open>curves\<close>.
\<close>

type_synonym fit_result = "(error + point list list) option"

definition subdivide ::
  "(point list \<Rightarrow> point option \<Rightarrow> point option \<Rightarrow> fit_result)
     \<Rightarrow> point list \<Rightarrow> point \<Rightarrow> point \<Rightarrow> nat \<Rightarrow> fit_result" where
  "subdivide fit points left_tangent right_tangent split_point =
     (case center_tangent_at points split_point of
        Inl e \<Rightarrow> Some (Inl e)
      | Inr center_tangent \<Rightarrow>
          (case fit (take (split_point + 1) points) (Some left_tangent) (Some center_tangent) of
             None \<Rightarrow> None
           | Some (Inl e) \<Rightarrow> Some (Inl e)
           | Some (Inr left) \<Rightarrow>
               (case fit (drop split_point points) (Some (vneg center_tangent))
                       (Some right_tangent) of
                  None \<Rightarrow> None
                | Some (Inl e) \<Rightarrow> Some (Inl e)
                | Some (Inr right) \<Rightarrow> Some (Inr (left @ right)))))"

text \<open>
  \<open>fit_bezier\<close>. The first argument of the model bounds the depth of the recursion.
\<close>

fun fit_bezier ::
  "nat \<Rightarrow> point list \<Rightarrow> real \<Rightarrow> point option \<Rightarrow> point option \<Rightarrow> fit_result" where
  "fit_bezier 0 points max_err left_tangent right_tangent = None"
| "fit_bezier (Suc fuel) points max_err left_tangent right_tangent =
     (case tangent_or left_tangent (estimate_left_tangent points) of
        Inl e \<Rightarrow> Some (Inl e)
      | Inr lt \<Rightarrow>
     (case tangent_or right_tangent (estimate_right_tangent points) of
        Inl e \<Rightarrow> Some (Inl e)
      | Inr rt \<Rightarrow>
          if length points = 2 then Some (Inr [two_point_curve points lt rt])
          else
            (case refine 32 points max_err lt rt Unset of
               Inl e \<Rightarrow> Some (Inl e)
             | Inr (Success bez_curve) \<Rightarrow> Some (Inr [bez_curve])
             | Inr (Subdivide how split_point) \<Rightarrow>
                 subdivide (\<lambda>ps l r. fit_bezier fuel ps max_err l r) points lt rt
                   split_point)))"

subsection \<open>The loop, round by round\<close>

text \<open>
  \<open>vars_after j\<close> holds the variables of the loop after \<open>j\<close> rounds, when the loop
  is still running then: \<open>None\<close> when an earlier round has returned, left the loop or
  raised.
\<close>

fun vars_after :: "point list \<Rightarrow> real \<Rightarrow> point \<Rightarrow> point \<Rightarrow> nat \<Rightarrow> loop_vars option" where
  "vars_after points max_err lt rt 0 = Some Unset"
| "vars_after points max_err lt rt (Suc j) =
     (case vars_after points max_err lt rt j of
        None \<Rightarrow> None
      | Some vars \<Rightarrow>
          (case next_params points vars of
             Inl e \<Rightarrow> None
           | Inr NaNs \<Rightarrow> if square_overflows max_err then None else Some NaNVars
           | Inr (Params u) \<Rightarrow>
               (case fit_round points max_err lt rt u of
                  Inr (Continue bez_curve u' split_point) \<Rightarrow>
                    Some (Vars bez_curve u' split_point)
                | _ \<Rightarrow> None)))"

subsection \<open>The hodograph of the specification\<close>

text \<open>
  The hodograph in the words of the specification: the control points of the derivative
  of a curve of degree \<open>n\<close> (\<open>n + 1\<close> control points) are \<open>n\<close> times the differences
  of consecutive control points, \<open>3 * (P\<^sub>i\<^sub>+\<^sub>1 - P\<^sub>i)\<close> for a cubic and \<open>2 * (H\<^sub>i\<^sub>+\<^sub>1 - H\<^sub>i)\<close>
  for the quadratic that results.
\<close>

definition spec_hodograph :: "point list \<Rightarrow> point list" where
  "spec_hodograph p =
     map (\<lambda>(b, a). smul (real (length p - 1)) (vsub b a)) (zip (tl p) (butlast p))"

subsection \<open>Arrays in a store\<close>

text \<open>
  For the question which arrays a call changes, the arrays live in a store: a list of
  arrays, an array being named by its index there. \<open>np.array([...])\<close> and the
  arithmetic of numpy build a new array, which the model appends to the store;
  \<open>bez_curve[i] += v\<close> changes row \<open>i\<close> of the array \<open>bez_curve\<close> in place. The
  temporaries \<open>A\<close>, \<open>C\<close>, \<open>X\<close> of \<open>generate_bezier\<close> and \<open>d\<close>, \<open>qp\<close>, \<open>num\<close>, \<open>den\<close> of
  \<open>newton_raphson_root_find\<close> are new arrays that nothing refers to after the call; the
  model computes them as values. An argument that is no array of the expected kind is
  a TypeError.
\<close>

datatype ndarray = Points "point list" | Reals "real list" | Vector point

type_synonym store = "ndarray list"

definition alloc :: "store \<Rightarrow> ndarray \<Rightarrow> store \<times> nat" where
  "alloc s a = (s @ [a], length s)"

definition row_iadd :: "store \<Rightarrow> nat \<Rightarrow> nat \<Rightarrow> point \<Rightarrow> store" where
  "row_iadd s b i v =
     (case s ! b of
        Points ps \<Rightarrow> s[b := Points (ps[i := vadd (ps ! i) v])]
      | _ \<Rightarrow> s)"

definition get_points :: "store \<Rightarrow> nat \<Rightarrow> error + point list" where
  "get_points s a =
     (if a < length s then (case s ! a of Points ps \<Rightarrow> Inr ps | _ \<Rightarrow> Inl TypeError)
      else Inl TypeError)"

definition get_reals :: "store \<Rightarrow> nat \<Rightarrow> error + real list" where
  "get_reals s a =
     (if a < length s then (case s ! a of Reals rs \<Rightarrow> Inr rs | _ \<Rightarrow> Inl TypeError)
      else Inl TypeError)"

definition get_vector :: "store \<Rightarrow> nat \<Rightarrow> error + point" where
  "get_vector s a =
     (if a < length s then (case s ! a of Vector v \<Rightarrow> Inr v | _ \<Rightarrow> Inl TypeError)
      else Inl TypeError)"

text \<open>
  \<open>generate_bezier\<close> on the store:
  \<^verbatim>\<open>
  bez_curve = np.array([points[0], points[0], points[-1], points[-1]])
  ...
  bez_curve[1] += left_tangent * (seg_len / 3.0)
  bez_curve[2] += right_tangent * (seg_len / 3.0)
  ...
  return bez_curve
  \<close>
\<close>

definition generate_bezier_st ::
  "store \<Rightarrow> nat \<Rightarrow> nat \<Rightarrow> nat \<Rightarrow> nat \<Rightarrow> error + store \<times> nat" where
  "generate_bezier_st s points_at u_at left_at right_at =
     (case get_points s points_at of Inl e \<Rightarrow> Inl e | Inr points \<Rightarrow>
      case get_reals s u_at of Inl e \<Rightarrow> Inl e | Inr u \<Rightarrow>
      case get_vector s left_at of Inl e \<Rightarrow> Inl e | Inr left_tangent \<Rightarrow>
      case get_vector s right_at of Inl e \<Rightarrow> Inl e | Inr right_tangent \<Rightarrow>
        if points = [] then Inl IndexError
        else
          let (s1, bez_curve) =
                alloc s (Points [hd points, hd points, last points, last points]);
              (alpha_l, alpha_r) = alphas points u left_tangent right_tangent;
              epsilon = 1 / 10 ^ 6 * seg_len points
          in if alpha_l < epsilon \<or> alpha_r < epsilon
             then
               let s2 = row_iadd s1 bez_curve 1 (smul (seg_len points / 3) left_tangent);
                   s3 = row_iadd s2 bez_curve 2 (smul (seg_len points / 3) right_tangent)
               in Inr (s3, bez_curve)
             else
               let s2 = row_iadd s1 bez_curve 1 (smul alpha_l left_tangent);
                   s3 = row_iadd s2 bez_curve 2 (smul alpha_r right_tangent)
               in Inr (s3, bez_curve))"

text \<open>
  \<open>newton_raphson_root_find\<close> on the store: \<open>return u + np.where(den==0, 0, num/den)\<close>
  is a new array.
\<close>

definition newton_raphson_root_find_st ::
  "store \<Rightarrow> nat \<Rightarrow> nat \<Rightarrow> nat \<Rightarrow> error + store \<times> nat" where
  "newton_raphson_root_find_st s bez_at points_at u_at =
     (case get_points s bez_at of Inl e \<Rightarrow> Inl e | Inr bez \<Rightarrow>
      case get_points s points_at of Inl e \<Rightarrow> Inl e | Inr points \<Rightarrow>
      case get_reals s u_at of Inl e \<Rightarrow> Inl e | Inr u \<Rightarrow>
        Inr (alloc s (Reals (newton_raphson_root_find bez points u))))"

subsection \<open>The end parameters between two rounds\<close>

text \<open>
  A property of the variables of the loop: the curve runs from the first to the last
  point, there is one parameter for each point, the first parameter is \<open>0\<close> and the
  last is \<open>1\<close>, and the split point is neither the first nor the last index.
\<close>

definition ends_pinned :: "point list \<Rightarrow> loop_vars \<Rightarrow> bool" where
  "ends_pinned points vars =
     (case vars of
        Unset \<Rightarrow> True
      | NaNVars \<Rightarrow> False
      | Vars bez_curve u split_point \<Rightarrow>
          length bez_curve = 4 \<and> bez_curve ! 0 = hd points \<and> bez_curve ! 3 = last points
          \<and> length u = length points \<and> u ! 0 = 0 \<and> u ! (length points - 1) = 1
          \<and> 0 < split_point \<and> split_point + 1 < length points)"

section \<open>Properties\<close>

subsection \<open>Evaluation in closed form\<close>

lemma evaluate_four:
  "evaluate [a, b, c, d] t =
     vadd (smul ((1 - t) ^ 3) a)
       (vadd (smul (3 * (1 - t) ^ 2 * t) b)
         (vadd (smul (3 * (1 - t) * t ^ 2) c) (smul (t ^ 3) d)))"
  by (simp add: evaluate_def vadd_def smul_def numeral_eq_Suc algebra_simps)

lemma evaluate_three:
  "evaluate [a, b, c] t =
     vadd (smul ((1 - t) ^ 2) a) (vadd (smul (2 * (1 - t) * t) b) (smul (t ^ 2) c))"
  by (simp add: evaluate_def vadd_def smul_def numeral_eq_Suc algebra_simps)

lemma evaluate_two:
  "evaluate [a, b] t = vadd (smul (1 - t) a) (smul t b)"
  by (simp add: evaluate_def vadd_def smul_def)

lemma hodo_four:
  "hodo [a, b, c, d] = [smul 4 (vsub b a), smul 4 (vsub c b), smul 4 (vsub d c)]"
  by (simp add: hodo_def)

lemma hodo_three:
  "hodo [a, b, c] = [smul 3 (vsub b a), smul 3 (vsub c b)]"
  by (simp add: hodo_def)

lemma evaluate_at_0: "evaluate [a, b, c, d] 0 = a"
  by (simp add: evaluate_four vadd_def smul_def)

lemma evaluate_at_1: "evaluate [a, b, c, d] 1 = d"
  by (simp add: evaluate_four vadd_def smul_def)

subsection \<open>The derivative evaluators\<close>

lemma spec_hodograph_four:
  "spec_hodograph [a, b, c, d] = [smul 3 (vsub b a), smul 3 (vsub c b), smul 3 (vsub d c)]"
  by (simp add: spec_hodograph_def)

text \<open>
  The first coordinate of the cubic with control points \<open>(0,0), (1,0), (2,0), (3,0)\<close> is
  \<open>3 * t\<close>, with derivative \<open>3\<close> everywhere.
\<close>

lemma line_cubic_fst: "fst (evaluate [(0, 0), (1, 0), (2, 0), (3, 0)] t) = 3 * t"
  by (simp add: evaluate_four vadd_def smul_def power2_eq_square power3_eq_cube algebra_simps)

lemma line_cubic_derivative:
  "((\<lambda>t. fst (evaluate [(0, 0), (1, 0), (2, 0), (3, 0)] t)) has_real_derivative 3) (at t)"
  unfolding line_cubic_fst by (auto intro!: derivative_eq_intros)

text \<open>
  C2. The claim: \<open>qprime\<close> evaluates the quadratic curve whose control points are
  \<open>3 * (P\<^sub>i\<^sub>+\<^sub>1 - P\<^sub>i)\<close>, and \<open>qprimeprime\<close> the linear curve of the two further
  hodograph points of that quadratic. The code multiplies the differences by the number
  of rows of its argument, 4 for the cubic and 3 for the quadratic: on the control points
  \<open>(0,0), (1,0), (2,0), (3,0)\<close> at \<open>t = 0\<close> it gives \<open>(4,0)\<close> where the curve of the
  claim gives \<open>(3,0)\<close>, and on \<open>(0,0), (1,0), (3,0), (6,0)\<close> it gives \<open>(12,0)\<close> for the
  second derivative where the claim gives \<open>(6,0)\<close>.
\<close>

theorem qprime_scaled_by_row_count:
  "qprime [(0, 0), (1, 0), (2, 0), (3, 0)] [0] = [(4, 0)]
   \<and> evaluate_multi (spec_hodograph [(0, 0), (1, 0), (2, 0), (3, 0)]) [0] = [(3, 0)]
   \<and> qprimeprime [(0, 0), (1, 0), (3, 0), (6, 0)] [0] = [(12, 0)]
   \<and> evaluate_multi (spec_hodograph (spec_hodograph [(0, 0), (1, 0), (3, 0), (6, 0)])) [0]
       = [(6, 0)]"
  by (simp add: qprime_def qprimeprime_def evaluate_multi_def evaluate_def hodo_def
      spec_hodograph_def vadd_def vsub_def smul_def)

subsection \<open>The Newton-Raphson step\<close>

lemma newton_raphson_root_find_single:
  "newton_raphson_root_find bez [p] [ui] =
     [ui + (if newton_den bez p ui = 0 then 0
            else newton_num bez p ui / newton_den bez p ui)]"
  by (simp add: newton_raphson_root_find_def q_def qprime_def qprimeprime_def
      evaluate_multi_def newton_num_def newton_den_def)

text \<open>
  C1. The claim: the new parameter is \<open>u\<^sub>i - numerator / denominator\<close> when the
  denominator is not zero. The code returns \<open>u + np.where(den==0, 0, num/den)\<close>, the sum.
  On the curve \<open>(0,0), (1,0), (2,0), (3,0)\<close>, the point \<open>(3/2,0)\<close> and \<open>u = 0\<close> the numerator
  is \<open>-6\<close> and the denominator \<open>16\<close>: the code returns \<open>-3/8\<close>, the claim asks for \<open>3/8\<close>.
\<close>

theorem newton_step_adds_quotient:
  "newton_raphson_root_find [(0, 0), (1, 0), (2, 0), (3, 0)] [(3 / 2, 0)] [0] = [- 3 / 8]
   \<and> newton_num [(0, 0), (1, 0), (2, 0), (3, 0)] (3 / 2, 0) 0 = - 6
   \<and> newton_den [(0, 0), (1, 0), (2, 0), (3, 0)] (3 / 2, 0) 0 = 16
   \<and> 0 - newton_num [(0, 0), (1, 0), (2, 0), (3, 0)] (3 / 2, 0) 0
         / newton_den [(0, 0), (1, 0), (2, 0), (3, 0)] (3 / 2, 0) 0 = 3 / 8"
  by (simp add: newton_raphson_root_find_def q_def qprime_def qprimeprime_def
      evaluate_multi_def evaluate_def hodo_def newton_num_def newton_den_def
      vadd_def vsub_def smul_def dot_def)

subsection \<open>Two points without tangents\<close>

lemma weights_two: "weights [a, b] = []"
  by (simp add: weights_def weights_of_def)

lemma estimate_left_tangent_two: "estimate_left_tangent [a, b] = Inr (0, 0)"
  by (simp add: estimate_left_tangent_def weights_two weighted_sum_def normalize_def
      dot_def float_eps_def)

lemma estimate_right_tangent_two: "estimate_right_tangent [a, b] = Inr (0, 0)"
  by (simp add: estimate_right_tangent_def weights_two weighted_sum_def normalize_def
      dot_def float_eps_def)

lemma fit_bezier_two_points:
  "fit_bezier (Suc fuel) [a, b] max_err None None = Some (Inr [[a, a, b, b]])"
  by (simp add: tangent_or_def estimate_left_tangent_two estimate_right_tangent_two
      two_point_curve_def vadd_def smul_def)

text \<open>
  C3. The claim: \<open>fit_bezier\<close> on the points \<open>(0,0), (1,0)\<close> with \<open>maxError = 1\<close> and no
  tangents returns the one curve \<open>(0,0), (1/3,0), (2/3,0), (1,0)\<close>. In the code
  \<open>weights\<close> is empty for two points, both estimated tangents are the zero vector,
  and the inner control points are the end points: the result is the one curve
  \<open>(0,0), (0,0), (1,0), (1,0)\<close>.
\<close>

theorem fit_bezier_unit_segment:
  "fit_bezier (Suc fuel) [(0, 0), (1, 0)] 1 None None
     = Some (Inr [[(0, 0), (0, 0), (1, 0), (1, 0)]])
   \<and> ([[(0, 0), (0, 0), (1, 0), (1, 0)]] :: point list list)
       \<noteq> [[(0, 0), (1 / 3, 0), (2 / 3, 0), (1, 0)]]"
  by (simp add: tangent_or_def estimate_left_tangent_two estimate_right_tangent_two
      two_point_curve_def vadd_def smul_def)

subsection \<open>Lengths and indices\<close>

lemma length_cumsum_from: "length (cumsum_from acc ds) = length ds"
  by (induction ds arbitrary: acc) simp_all

lemma length_chord_lengths: "points \<noteq> [] \<Longrightarrow> length (chord_lengths points) = length points"
  by (cases points) (simp_all add: chord_lengths_def length_cumsum_from)

lemma chord_lengths_0: "chord_lengths points ! 0 = 0"
  by (simp add: chord_lengths_def)

lemma chord_parameterize_ends:
  assumes "chord_parameterize points = Inr (Params u)"
  shows "length u = length points \<and> u ! 0 = 0 \<and> u ! (length points - 1) = 1"
proof -
  from assms have l: "2 \<le> length points" and t: "last (chord_lengths points) \<noteq> 0"
    and u: "u = map (\<lambda>c. c / last (chord_lengths points)) (chord_lengths points)"
    by (auto simp: chord_parameterize_def Let_def split: if_splits)
  from l have ne: "points \<noteq> []" by auto
  have len: "length (chord_lengths points) = length points"
    by (rule length_chord_lengths[OF ne])
  have la: "chord_lengths points ! (length points - 1) = last (chord_lengths points)"
    using len ne by (metis last_conv_nth length_0_conv)
  have "0 < length (chord_lengths points)" using len l by arith
  then have "u ! 0 = chord_lengths points ! 0 / last (chord_lengths points)"
    unfolding u by (rule nth_map)
  then have "u ! 0 = 0" by (simp add: chord_lengths_0)
  moreover have "length points - 1 < length (chord_lengths points)" using len l by arith
  then have "u ! (length points - 1)
      = chord_lengths points ! (length points - 1) / last (chord_lengths points)"
    unfolding u by (rule nth_map)
  then have "u ! (length points - 1) = 1" using la t by simp
  ultimately show ?thesis using u len by simp
qed

lemma length_newton:
  "length u = length points \<Longrightarrow> length (newton_raphson_root_find bez points u) = length points"
  by (simp add: newton_raphson_root_find_def q_def qprime_def qprimeprime_def
      evaluate_multi_def Let_def)

lemma newton_nth:
  assumes "length u = length points" "i < length points"
  shows "newton_raphson_root_find bez points u ! i =
     u ! i + (if newton_den bez (points ! i) (u ! i) = 0 then 0
              else newton_num bez (points ! i) (u ! i) / newton_den bez (points ! i) (u ! i))"
  using assms
  by (simp add: newton_raphson_root_find_def q_def qprime_def qprimeprime_def
      evaluate_multi_def Let_def newton_num_def newton_den_def)

lemma newton_num_on_curve: "evaluate bez ui = p \<Longrightarrow> newton_num bez p ui = 0"
  by (simp add: newton_num_def vsub_def dot_def)

lemma newton_fixed:
  assumes "length u = length points" "i < length points" "evaluate bez (u ! i) = points ! i"
  shows "newton_raphson_root_find bez points u ! i = u ! i"
  using newton_nth[OF assms(1,2), of bez] newton_num_on_curve[OF assms(3)] by simp

lemma argmax_less: "xs \<noteq> [] \<Longrightarrow> argmax xs < length xs"
proof (induction xs)
  case Nil
  then show ?case by simp
next
  case (Cons x xs)
  then show ?case by (cases "xs = []") auto
qed


lemma length_sq_errors:
  "length u = length points \<Longrightarrow> length (sq_errors bez u points) = length points"
  by (simp add: sq_errors_def q_def evaluate_multi_def)

lemma sq_errors_nth:
  "length u = length points \<Longrightarrow> i < length points \<Longrightarrow>
   sq_errors bez u points ! i
     = dot (vsub (evaluate bez (u ! i)) (points ! i)) (vsub (evaluate bez (u ! i)) (points ! i))"
  by (simp add: sq_errors_def q_def evaluate_multi_def)

lemma sq_errors_on_curve:
  "length u = length points \<Longrightarrow> i < length points \<Longrightarrow> evaluate bez (u ! i) = points ! i \<Longrightarrow>
   sq_errors bez u points ! i = 0"
  by (simp add: sq_errors_nth vsub_def dot_def)

lemma evaluate_ends:
  assumes "length bez = 4"
  shows "evaluate bez 0 = bez ! 0" "evaluate bez 1 = bez ! 3"
proof -
  from assms obtain a b c d where b: "bez = [a, b, c, d]"
    by (auto simp: numeral_eq_Suc length_Suc_conv)
  show "evaluate bez 0 = bez ! 0" unfolding b by (simp add: evaluate_at_0)
  show "evaluate bez 1 = bez ! 3" unfolding b by (simp add: evaluate_at_1)
qed

lemma generate_bezier_endpoints:
  "generate_bezier points u lt rt = Inr c \<Longrightarrow>
   length c = 4 \<and> c ! 0 = hd points \<and> c ! 3 = last points \<and> points \<noteq> []"
  by (auto simp: generate_bezier_def Let_def split: if_splits prod.splits)


lemma not_square_overflows: "\<bar>x\<bar> \<le> 2 ^ 500 \<Longrightarrow> \<not> square_overflows x"
proof -
  assume "\<bar>x\<bar> \<le> 2 ^ 500"
  then have "\<bar>x\<bar>\<^sup>2 \<le> (2 ^ 500)\<^sup>2" by (rule power_mono) simp
  then have "x\<^sup>2 \<le> 2 ^ 1000" by simp
  moreover have "(2 :: real) ^ 1000 < 2 ^ 1024 - 2 ^ 970" by simp
  ultimately show ?thesis by (simp add: square_overflows_def)
qed

subsection \<open>The refinement loop\<close>


lemma fit_bezier_given:
  "fit_bezier (Suc fuel) points max_err (Some lt) (Some rt) =
     (if length points = 2 then Some (Inr [two_point_curve points lt rt])
      else
        (case refine 32 points max_err lt rt Unset of
           Inl e \<Rightarrow> Some (Inl e)
         | Inr (Success bez_curve) \<Rightarrow> Some (Inr [bez_curve])
         | Inr (Subdivide how split_point) \<Rightarrow>
             subdivide (\<lambda>ps l r. fit_bezier fuel ps max_err l r) points lt rt split_point))"
  by (simp add: tangent_or_def)



lemma sqrt_4: "sqrt 4 = 2"
  using real_sqrt_abs[of 2] by simp

lemma alphas_axis3:
  "alphas [(0, 0), (1, 0), (2, 0)] [0, 1 / 2, 1] (1, 0) (- 1, 0) = (0, 0)"
  by (simp add: alphas_def det_C0_C1_def C_matrix_def X_vector_def A_left_def A_right_def q_def
      evaluate_multi_def evaluate_four Let_def vadd_def vsub_def smul_def dot_def)

lemma generate_bezier_axis3:
  "generate_bezier [(0, 0), (1, 0), (2, 0)] [0, 1 / 2, 1] (1, 0) (- 1, 0)
     = Inr [(0, 0), (2 / 3, 0), (4 / 3, 0), (2, 0)]"
  by (simp add: generate_bezier_def alphas_axis3 seg_len_def norm2_def vsub_def vadd_def
      smul_def dot_def sqrt_4)

subsection \<open>The control points of a generated curve\<close>

lemma alphas_ill_conditioned:
  "\<bar>det_C0_C1 lt rt u\<bar> < 1 / 10 ^ 5 \<Longrightarrow> alphas points u lt rt = (0, 0)"
  by (simp add: alphas_def Let_def)



subsection \<open>Points that are all one point\<close>

lemma fit_bezier_estimated:
  "estimate_left_tangent points = Inr lt \<Longrightarrow> estimate_right_tangent points = Inr rt \<Longrightarrow>
   fit_bezier (Suc fuel) points max_err None None
     = fit_bezier (Suc fuel) points max_err (Some lt) (Some rt)"
  by (simp add: tangent_or_def)

lemma cumsum_from_replicate:
  "cumsum_from 0 (replicate n 0) = replicate n 0"
  by (induction n) simp_all

lemma zip_tl_butlast_replicate:
  "zip (tl (replicate n p)) (butlast (replicate n p)) = replicate (n - 1) (p, p)"
proof (cases n)
  case 0
  then show ?thesis by simp
next
  case (Suc m)
  have "butlast (replicate (Suc m) p) = replicate m p"
    by (induction m) simp_all
  then show ?thesis using Suc by (simp add: zip_replicate)
qed

lemma norm2_vsub_self: "norm2 (vsub p p) = 0"
  by (simp add: norm2_def vsub_def dot_def)

lemma chord_lengths_replicate:
  "chord_lengths (replicate (Suc n) p) = replicate (Suc n) 0"
proof -
  have "zip (tl (replicate (Suc n) p)) (butlast (replicate (Suc n) p)) = replicate n (p, p)"
    using zip_tl_butlast_replicate[of "Suc n" p] by simp
  then have "chord_lengths (replicate (Suc n) p) = 0 # cumsum_from 0 (replicate n 0)"
    unfolding chord_lengths_def by (simp add: norm2_vsub_self)
  then show ?thesis by (simp add: cumsum_from_replicate)
qed

lemma chord_parameterize_replicate:
  "2 \<le> n \<Longrightarrow> chord_parameterize (replicate n p) = Inr NaNs"
proof -
  assume n: "2 \<le> n"
  then obtain m where m: "n = Suc m" by (cases n) auto
  have "last (chord_lengths (replicate n p)) = 0"
    unfolding m chord_lengths_replicate by simp
  then show ?thesis using n by (simp add: chord_parameterize_def Let_def)
qed

lemma refine_NaNVars:
  "\<not> square_overflows max_err \<Longrightarrow>
   refine k points max_err lt rt NaNVars = Inr (Subdivide ByExhaustion 0)"
  by (induction k) simp_all

lemma vars_after_NaNs:
  "chord_parameterize points = Inr NaNs \<Longrightarrow> \<not> square_overflows max_err \<Longrightarrow>
   vars_after points max_err lt rt (Suc j) = Some NaNVars"
  by (induction j) simp_all

lemma refine_NaNs:
  "chord_parameterize points = Inr NaNs \<Longrightarrow> \<not> square_overflows max_err \<Longrightarrow>
   refine (Suc k) points max_err lt rt Unset = Inr (Subdivide ByExhaustion 0)"
  by (simp add: refine_NaNVars)

lemma fit_bezier_one_point:
  "fit_bezier (Suc fuel) [p] max_err (Some lt) (Some rt) = Some (Inl TypeError)"
  by (simp add: tangent_or_def chord_parameterize_def numeral_eq_Suc)

lemma normalize_zero: "normalize (0, 0) = (0, 0)"
  by (simp add: normalize_def dot_def float_eps_def)

lemma weights_three: "weights [a, b, c] = [1]"
  by (simp add: weights_def weights_of_def numeral_2_eq_2)

lemma identical3: "[(0, 0), (0, 0), (0, 0)] = replicate 3 ((0, 0) :: point)"
  by (simp add: numeral_3_eq_3)

lemma estimate_tangents_origin3:
  "estimate_left_tangent [(0, 0), (0, 0), (0, 0)] = Inr (0, 0)"
  "estimate_right_tangent [(0, 0), (0, 0), (0, 0)] = Inr (0, 0)"
  by (simp_all add: estimate_left_tangent_def estimate_right_tangent_def weights_three
      weighted_sum_def vsub_def vadd_def smul_def normalize_zero)

lemma refine_origin3:
  "\<not> square_overflows max_err \<Longrightarrow>
   refine 32 [(0, 0), (0, 0), (0, 0)] max_err lt rt Unset = Inr (Subdivide ByExhaustion 0)"
  using refine_NaNs[of "[(0, 0), (0, 0), (0, 0)]" max_err 31 lt rt]
    chord_parameterize_replicate[of 3 "(0, 0)"]
  by (simp add: identical3 del: refine.simps)

lemma center_tangent_origin3:
  "center_tangent_at [(0, 0), (0, 0), (0, 0)] 0 = Inr (0, 0)"
  by (simp add: center_tangent_at_def vsub_def normalize_zero)

text \<open>
  C6. The claim: for every input of at least 2 points and every positive \<open>maxError\<close>,
  \<open>fit_bezier\<close> raises no exception and returns a result. For three points at the origin
  the total chord length is \<open>0\<close>, the parameters are NaN, the 32 rounds neither return
  nor break, \<open>split_point\<close> is \<open>0\<close>, and the first recursive call, on the one point
  \<open>points[:1]\<close>, raises TypeError at \<open>u /= u[-1]\<close>.
\<close>

theorem fit_bezier_identical_points_raises:
  "fit_bezier (Suc (Suc fuel)) [(0, 0), (0, 0), (0, 0)] 1 None None = Some (Inl TypeError)"
proof -
  have "fit_bezier (Suc (Suc fuel)) [(0, 0), (0, 0), (0, 0)] 1 (Some (0, 0)) (Some (0, 0))
      = Some (Inl TypeError)"
    by (subst fit_bezier_given)
      (simp add: refine_origin3 not_square_overflows subdivide_def center_tangent_origin3
        fit_bezier_one_point del: fit_bezier.simps refine.simps)
  then show ?thesis
    by (simp add: fit_bezier_estimated[OF estimate_tangents_origin3] del: fit_bezier.simps)
qed

text \<open>
  C5. The claim: whenever \<open>fit_bezier\<close> subdivides, the split index is neither \<open>0\<close> nor
  the last index, and each recursive call receives a shorter range of at least 2 points.
  For three points at the origin (the tangents estimated for them are the zero vector) the
  loop ends with \<open>split_point = 0\<close>: \<open>points[:1]\<close> has one point, and \<open>points[0:]\<close> is the
  whole range.
\<close>

theorem split_at_first_index:
  "refine 32 [(0, 0), (0, 0), (0, 0)] 1 (0, 0) (0, 0) Unset = Inr (Subdivide ByExhaustion 0)
   \<and> take (0 + 1) [(0, 0), (0, 0), (0, 0 :: real)] = [(0, 0)]
   \<and> drop 0 [(0, 0), (0, 0), (0, 0 :: real)] = [(0, 0), (0, 0), (0, 0)]"
  by (simp add: refine_origin3 not_square_overflows del: refine.simps)

lemma weights_four: "weights [a, b, c, d] = [2 / 3, 1 / 3]"
  by (simp add: weights_def weights_of_def numeral_3_eq_3 upt_rec)

lemma identical4: "[p, p, p, p] = replicate 4 p"
  by (simp add: numeral_eq_Suc)

lemma estimate_tangents_identical4:
  "estimate_left_tangent [p, p, p, p] = Inr (0, 0)"
  "estimate_right_tangent [p, p, p, p] = Inr (0, 0)"
  by (simp_all add: estimate_left_tangent_def estimate_right_tangent_def weights_four
      weighted_sum_def vsub_def vadd_def smul_def normalize_zero)

text \<open>
  C8. The claim: for every input of at least 2 points \<open>fit_bezier\<close> returns a non-empty
  sequence of curves of 4 points, whose end points are points of the input. For four
  points at \<open>(1,2)\<close> no sequence is returned: the call raises TypeError.
\<close>

theorem fit_bezier_no_result_on_identical_points:
  "fit_bezier (Suc (Suc fuel)) [(1, 2), (1, 2), (1, 2), (1, 2)] 1 None None
     = Some (Inl TypeError)"
proof -
  have r: "refine 32 [(1, 2), (1, 2), (1, 2), (1, 2)] 1 (0, 0) (0, 0) Unset
      = Inr (Subdivide ByExhaustion 0)"
    using refine_NaNs[of "[(1, 2), (1, 2), (1, 2), (1, 2)]" 1 31 "(0, 0)" "(0, 0)"]
      chord_parameterize_replicate[of 4 "(1, 2)"]
    by (simp add: identical4 not_square_overflows del: refine.simps)
  have c: "center_tangent_at [(1, 2), (1, 2), (1, 2), (1, 2)] 0 = Inr (0, 0)"
    by (simp add: center_tangent_at_def vsub_def normalize_zero)
  have "fit_bezier (Suc (Suc fuel)) [(1, 2), (1, 2), (1, 2), (1, 2)] 1 (Some (0, 0)) (Some (0, 0))
      = Some (Inl TypeError)"
    by (subst fit_bezier_given)
      (simp add: r c subdivide_def fit_bezier_one_point del: fit_bezier.simps refine.simps)
  then show ?thesis
    by (simp add: fit_bezier_estimated[OF estimate_tangents_identical4]
        del: fit_bezier.simps)
qed

subsection \<open>The rounds of the loop on points that are all one point\<close>

text \<open>
  C9. The claim: for every input of at least 3 points and \<open>0 < maxError < 1\<close> the loop
  is left in its first round, and \<open>newton_raphson_root_find\<close> is not called. For three
  points at the origin and \<open>maxError = 1/2\<close> the total chord length is \<open>0\<close>, the
  division \<open>u /= u[-1]\<close> gives parameters that are NaN, no comparison of \<open>err\<close> holds,
  and the loop is still running after each of its 32 rounds, the rounds 2 to 32 calling
  \<open>newton_raphson_root_find\<close>; the loop ends because the range is used up.
\<close>

theorem loop_runs_all_rounds_on_identical_points:
  "vars_after [(0, 0), (0, 0), (0, 0)] (1 / 2) (0, 0) (0, 0) 32 = Some NaNVars
   \<and> refine 32 [(0, 0), (0, 0), (0, 0)] (1 / 2) (0, 0) (0, 0) Unset
       = Inr (Subdivide ByExhaustion 0)"
  using vars_after_NaNs[of "[(0, 0), (0, 0), (0, 0)]" "1 / 2" "(0, 0)" "(0, 0)" 31]
    chord_parameterize_replicate[of 3 "(0, 0)"]
  by (simp add: identical3 refine_origin3[unfolded identical3] not_square_overflows
      del: refine.simps vars_after.simps)

subsection \<open>The exits of a round of the loop\<close>

text \<open>
  A polyline with a peak: \<open>(0,0), (3k,4k), (6k,0)\<close> with the tangents \<open>(1,0)\<close> and
  \<open>(-1,0)\<close>. Both chords have the length \<open>5k\<close>, the parameters are \<open>0, 1/2, 1\<close>, the
  determinant is \<open>0\<close>, the curve is the segment from the first to the last point, and the
  squared errors are \<open>0, 16k\<^sup>2, 0\<close>. The Newton-Raphson step leaves the parameters as
  they are, as the error at the peak is orthogonal to the segment.
\<close>

lemma sqrt_square_5: "0 \<le> k \<Longrightarrow> sqrt (25 * k\<^sup>2) = 5 * k"
proof -
  assume k: "0 \<le> k"
  have e: "25 * k\<^sup>2 = (5 * k)\<^sup>2" by (simp add: power2_eq_square)
  show ?thesis unfolding e real_sqrt_abs using k by simp
qed

lemma sqrt_square_6: "0 \<le> k \<Longrightarrow> sqrt (36 * k\<^sup>2) = 6 * k"
proof -
  assume k: "0 \<le> k"
  have e: "36 * k\<^sup>2 = (6 * k)\<^sup>2" by (simp add: power2_eq_square)
  show ?thesis unfolding e real_sqrt_abs using k by simp
qed

lemma norm2_peak:
  assumes "0 \<le> k"
  shows "norm2 (vsub (3 * k, 4 * k) (0, 0)) = 5 * k"
    and "norm2 (vsub (6 * k, 0) (3 * k, 4 * k)) = 5 * k"
    and "norm2 (vsub (0, 0) (6 * k, 0)) = 6 * k"
proof -
  have a: "3 * k * (3 * k) + 4 * k * (4 * k) = 25 * k\<^sup>2"
    by (simp add: power2_eq_square)
  have b: "(6 * k - 3 * k) * (6 * k - 3 * k) + 4 * k * (4 * k) = 25 * k\<^sup>2"
    by (simp add: power2_eq_square algebra_simps)
  have c: "6 * k * (6 * k) = 36 * k\<^sup>2"
    by (simp add: power2_eq_square)
  show "norm2 (vsub (3 * k, 4 * k) (0, 0)) = 5 * k"
    using a sqrt_square_5[OF assms] by (simp add: norm2_def vsub_def dot_def)
  show "norm2 (vsub (6 * k, 0) (3 * k, 4 * k)) = 5 * k"
    using b sqrt_square_5[OF assms] by (simp add: norm2_def vsub_def dot_def)
  show "norm2 (vsub (0, 0) (6 * k, 0)) = 6 * k"
    using c sqrt_square_6[OF assms] by (simp add: norm2_def vsub_def dot_def)
qed

lemma chord_parameterize_peak:
  "0 < k \<Longrightarrow> chord_parameterize [(0, 0), (3 * k, 4 * k), (6 * k, 0)] = Inr (Params [0, 1 / 2, 1])"
  by (simp add: chord_parameterize_def chord_lengths_def norm2_peak)

lemma det_C0_C1_peak: "det_C0_C1 (1, 0) (- 1, 0) [0, 1 / 2, 1] = 0"
  by (simp add: det_C0_C1_def C_matrix_def A_left_def A_right_def Let_def smul_def dot_def)

lemma generate_bezier_peak:
  "0 < k \<Longrightarrow> generate_bezier [(0, 0), (3 * k, 4 * k), (6 * k, 0)] [0, 1 / 2, 1] (1, 0) (- 1, 0)
     = Inr [(0, 0), (2 * k, 0), (4 * k, 0), (6 * k, 0)]"
  by (simp add: generate_bezier_def alphas_ill_conditioned det_C0_C1_peak seg_len_def norm2_peak
      vadd_def smul_def)

lemma sq_errors_peak:
  "sq_errors [(0, 0), (2 * k, 0), (4 * k, 0), (6 * k, 0)] [0, 1 / 2, 1]
       [(0, 0), (3 * k, 4 * k), (6 * k, 0)]
     = [0, 16 * k\<^sup>2, 0]"
  by (simp add: sq_errors_def q_def evaluate_multi_def evaluate_four vadd_def vsub_def
      smul_def dot_def power2_eq_square power3_eq_cube algebra_simps)

lemma argmax_peak: "k \<noteq> 0 \<Longrightarrow> argmax [0, 16 * k\<^sup>2, 0] = 1"
  by simp


lemma fit_round_peak:
  assumes "0 < k"
  shows "fit_round [(0, 0), (3 * k, 4 * k), (6 * k, 0)] max_err (1, 0) (- 1, 0) [0, 1 / 2, 1] =
     (if 16 * k\<^sup>2 < max_err then Inr (Return [(0, 0), (2 * k, 0), (4 * k, 0), (6 * k, 0)])
      else if square_overflows max_err then Inl OverflowError
      else if max_err\<^sup>2 < 16 * k\<^sup>2 then Inr (Break 1)
      else Inr (Continue [(0, 0), (2 * k, 0), (4 * k, 0), (6 * k, 0)] [0, 1 / 2, 1] 1))"
proof -
  from assms have k: "k \<noteq> 0" by simp
  show ?thesis
    by (simp add: fit_round_def generate_bezier_peak[OF assms] sq_errors_peak
        argmax_peak[OF k] Let_def del: argmax.simps)
qed



text \<open>
  The power \<open>max_err ** 2\<close> overflows for \<open>max_err = 2^600\<close>. For the polyline
  \<open>(0,0), (3 * 2^300, 4 * 2^300), (6 * 2^300, 0)\<close> the error of the first round,
  \<open>16 * 2^600\<close>, is not below \<open>max_err\<close>, and the call raises OverflowError.
\<close>

lemma fit_bezier_square_overflows:
  "fit_bezier (Suc fuel) [(0, 0), (3 * 2 ^ 300, 4 * 2 ^ 300), (6 * 2 ^ 300, 0)] (2 ^ 600)
       (Some (1, 0)) (Some (- 1, 0))
     = Some (Inl OverflowError)"
proof -
  have o: "square_overflows (2 ^ 600)"
    by (simp add: square_overflows_def)
  have e: "\<not> 16 * ((2 :: real) ^ 300)\<^sup>2 < 2 ^ 600"
    by simp
  have c: "chord_parameterize [(0, 0), (3 * 2 ^ 300, 4 * 2 ^ 300), (6 * 2 ^ 300, 0)]
      = Inr (Params [0, 1 / 2, 1])"
    by (rule chord_parameterize_peak) simp
  have f: "fit_round [(0, 0), (3 * 2 ^ 300, 4 * 2 ^ 300), (6 * 2 ^ 300, 0)] (2 ^ 600) (1, 0)
        (- 1, 0) [0, 1 / 2, 1] = Inl OverflowError"
    by (subst fit_round_peak) (use o e in simp_all)
  have "refine (Suc 31) [(0, 0), (3 * 2 ^ 300, 4 * 2 ^ 300), (6 * 2 ^ 300, 0)] (2 ^ 600)
        (1, 0) (- 1, 0) Unset = Inl OverflowError"
    by (subst refine.simps(2)) (use c f in \<open>simp del: power_numeral\<close>)
  then have r: "refine 32 [(0, 0), (3 * 2 ^ 300, 4 * 2 ^ 300), (6 * 2 ^ 300, 0)] (2 ^ 600)
        (1, 0) (- 1, 0) Unset = Inl OverflowError"
    by (simp del: refine.simps power_numeral)
  show ?thesis
    by (subst fit_bezier_given) (use r in \<open>simp del: refine.simps power_numeral\<close>)
qed









subsection \<open>The arguments of a call stay as they are\<close>

lemma row_iadd_fresh:
  "b = length s \<Longrightarrow> row_iadd (s @ [Points ps]) b i v = s @ [Points (ps[i := vadd (ps ! i) v])]"
  by (simp add: row_iadd_def)

lemma generate_bezier_st_result:
  assumes "get_points s pa = Inr points" "get_reals s ua = Inr u"
    "get_vector s la = Inr lt" "get_vector s ra = Inr rt" "points \<noteq> []"
  shows "\<exists>curve. generate_bezier points u lt rt = Inr curve
       \<and> generate_bezier_st s pa ua la ra = Inr (s @ [Points curve], length s)"
proof -
  obtain al ar where al: "alphas points u lt rt = (al, ar)" by (cases "alphas points u lt rt")
  show ?thesis
    using assms al
    by (simp add: generate_bezier_st_def generate_bezier_def alloc_def row_iadd_fresh Let_def
        vadd_def)
qed

lemma newton_raphson_root_find_axis3:
  "newton_raphson_root_find [(0, 0), (2 / 3, 0), (4 / 3, 0), (2, 0)]
     [(0, 0), (1, 0), (2, 0)] [0, 1 / 2, 1] = [0, 1 / 2, 1]"
  by (simp add: newton_raphson_root_find_def q_def qprime_def qprimeprime_def
      evaluate_multi_def evaluate_four evaluate_three evaluate_two hodo_four hodo_three
      vadd_def vsub_def smul_def dot_def power2_eq_square power3_eq_cube)

text \<open>
  C10. After a call of \<open>generate_bezier\<close> or of \<open>newton_raphson_root_find\<close> that
  returns, every array of the store before the call is as it was, the arguments among
  them: the store after the call is the store before it with one new array, the result.
\<close>

theorem arguments_unchanged:
  "(generate_bezier_st s points_at u_at left_at right_at = Inr (s', bez_curve) \<longrightarrow>
      bez_curve = length s \<and> length s' = Suc (length s) \<and> take (length s) s' = s
      \<and> s' ! points_at = s ! points_at \<and> s' ! u_at = s ! u_at
      \<and> s' ! left_at = s ! left_at \<and> s' ! right_at = s ! right_at)
   \<and> (newton_raphson_root_find_st s bez_at points_at u_at = Inr (s', u') \<longrightarrow>
      u' = length s \<and> length s' = Suc (length s) \<and> take (length s) s' = s
      \<and> s' ! bez_at = s ! bez_at \<and> s' ! points_at = s ! points_at \<and> s' ! u_at = s ! u_at)"
proof (intro conjI impI)
  assume g: "generate_bezier_st s points_at u_at left_at right_at = Inr (s', bez_curve)"
  then obtain points u lt rt where r: "get_points s points_at = Inr points"
    "get_reals s u_at = Inr u" "get_vector s left_at = Inr lt" "get_vector s right_at = Inr rt"
    "points \<noteq> []"
    by (auto simp: generate_bezier_st_def split: sum.splits if_splits)
  from generate_bezier_st_result[OF r] g obtain curve where
    s': "s' = s @ [Points curve]" and b: "bez_curve = length s" by auto
  have lt: "points_at < length s" "u_at < length s" "left_at < length s" "right_at < length s"
    using r by (auto simp: get_points_def get_reals_def get_vector_def split: if_splits)
  show "bez_curve = length s" by (rule b)
  show "length s' = Suc (length s)" by (simp add: s')
  show "take (length s) s' = s" by (simp add: s')
  show "s' ! points_at = s ! points_at" using lt by (simp add: s' nth_append)
  show "s' ! u_at = s ! u_at" using lt by (simp add: s' nth_append)
  show "s' ! left_at = s ! left_at" using lt by (simp add: s' nth_append)
  show "s' ! right_at = s ! right_at" using lt by (simp add: s' nth_append)
next
  assume n: "newton_raphson_root_find_st s bez_at points_at u_at = Inr (s', u')"
  then obtain bez points u where r: "get_points s bez_at = Inr bez"
    "get_points s points_at = Inr points" "get_reals s u_at = Inr u"
    by (auto simp: newton_raphson_root_find_st_def split: sum.splits)
  from n r have s': "s' = s @ [Reals (newton_raphson_root_find bez points u)]"
    and b: "u' = length s"
    by (auto simp: newton_raphson_root_find_st_def alloc_def)
  have lt: "bez_at < length s" "points_at < length s" "u_at < length s"
    using r by (auto simp: get_points_def get_reals_def split: if_splits)
  show "u' = length s" by (rule b)
  show "length s' = Suc (length s)" by (simp add: s')
  show "take (length s) s' = s" by (simp add: s')
  show "s' ! bez_at = s ! bez_at" using lt by (simp add: s' nth_append)
  show "s' ! points_at = s ! points_at" using lt by (simp add: s' nth_append)
  show "s' ! u_at = s ! u_at" using lt by (simp add: s' nth_append)
qed

theorem arguments_unchanged_witness:
  "generate_bezier_st
     [Points [(0, 0), (1, 0), (2, 0)], Reals [0, 1 / 2, 1], Vector (1, 0), Vector (- 1, 0)]
     0 1 2 3
     = Inr ([Points [(0, 0), (1, 0), (2, 0)], Reals [0, 1 / 2, 1], Vector (1, 0),
             Vector (- 1, 0), Points [(0, 0), (2 / 3, 0), (4 / 3, 0), (2, 0)]], 4)
   \<and> newton_raphson_root_find_st
       [Points [(0, 0), (1, 0), (2, 0)], Reals [0, 1 / 2, 1], Vector (1, 0),
        Vector (- 1, 0), Points [(0, 0), (2 / 3, 0), (4 / 3, 0), (2, 0)]] 4 0 1
     = Inr ([Points [(0, 0), (1, 0), (2, 0)], Reals [0, 1 / 2, 1], Vector (1, 0),
             Vector (- 1, 0), Points [(0, 0), (2 / 3, 0), (4 / 3, 0), (2, 0)],
             Reals [0, 1 / 2, 1]], 5)
   \<and> take 4 [Points [(0, 0), (1, 0), (2, 0)], Reals [0, 1 / 2, 1], Vector (1, 0),
             Vector (- 1, 0), Points [(0, 0), (2 / 3, 0), (4 / 3, 0), (2, 0)]]
     = [Points [(0, 0), (1, 0), (2, 0)], Reals [0, 1 / 2, 1], Vector (1, 0), Vector (- 1, 0)]"
proof -
  let ?s = "[Points [(0, 0), (1, 0), (2, 0)], Reals [0, 1 / 2, 1], Vector (1, 0),
             Vector (- 1, 0)]"
  let ?c = "Points [(0, 0), (2 / 3, 0), (4 / 3, 0), (2, 0)]"
  have g: "generate_bezier_st ?s 0 1 2 3 = Inr (?s @ [?c], 4)"
    using generate_bezier_st_result[of ?s 0 "[(0, 0), (1, 0), (2, 0)]" 1 "[0, 1 / 2, 1]"
        2 "(1, 0)" 3 "(- 1, 0)"]
    by (simp add: get_points_def get_reals_def get_vector_def generate_bezier_axis3)
  have n: "newton_raphson_root_find_st (?s @ [?c]) 4 0 1
      = Inr (?s @ [?c, Reals [0, 1 / 2, 1]], 5)"
    by (simp add: newton_raphson_root_find_st_def get_points_def get_reals_def alloc_def
        newton_raphson_root_find_axis3)
  have "take (length ?s) (?s @ [?c]) = ?s"
    using arguments_unchanged[of ?s 0 1 2 3 "?s @ [?c]" 4] g by blast
  then show ?thesis
    using g n by simp
qed

subsection \<open>The curves of a returned result\<close>

lemma fit_round_Return_endpoints:
  "fit_round points max_err lt rt u = Inr (Return c) \<Longrightarrow>
   length c = 4 \<and> c ! 0 = hd points \<and> c ! 3 = last points \<and> points \<noteq> []"
  using generate_bezier_endpoints[of points u lt rt]
  by (auto simp: fit_round_def Let_def split: sum.splits if_splits)

lemma refine_Success_endpoints:
  "refine k points max_err lt rt vars = Inr (Success c) \<Longrightarrow>
   length c = 4 \<and> c ! 0 = hd points \<and> c ! 3 = last points \<and> points \<noteq> []"
proof (induction k arbitrary: vars)
  case 0
  then show ?case by (simp split: loop_vars.splits)
next
  case (Suc k)
  show ?case
  proof (cases "next_params points vars")
    case (Inl e)
    with Suc.prems show ?thesis by simp
  next
    case (Inr ps)
    show ?thesis
    proof (cases ps)
      case NaNs
      with Inr Suc.prems have "refine k points max_err lt rt NaNVars = Inr (Success c)"
        by (simp split: if_splits)
      then show ?thesis by (rule Suc.IH)
    next
      case (Params u)
      show ?thesis
      proof (cases "fit_round points max_err lt rt u")
        case (Inl e)
        with Inr Params Suc.prems show ?thesis by simp
      next
        case r: (Inr res)
        show ?thesis
        proof (cases res)
          case (Return b)
          with r Inr Params Suc.prems have "b = c" by simp
          with r Return show ?thesis using fit_round_Return_endpoints by blast
        next
          case (Break sp)
          with r Inr Params Suc.prems show ?thesis by simp
        next
          case (Continue b u' sp)
          with r Inr Params Suc.prems
          have "refine k points max_err lt rt (Vars b u' sp) = Inr (Success c)" by simp
          then show ?thesis by (rule Suc.IH)
        qed
      qed
    qed
  qed
qed

lemma tangent_or_Some: "tangent_or (Some t) e = Inr t"
  by (simp add: tangent_or_def)

lemma fit_bezier_tangents:
  assumes "fit_bezier (Suc fuel) points max_err left_tangent right_tangent = Some (Inr curves)"
  shows "\<exists>lt rt. fit_bezier (Suc fuel) points max_err (Some lt) (Some rt) = Some (Inr curves)"
proof -
  obtain lt where lt: "tangent_or left_tangent (estimate_left_tangent points) = Inr lt"
    using assms by (cases "tangent_or left_tangent (estimate_left_tangent points)") simp_all
  obtain rt where rt: "tangent_or right_tangent (estimate_right_tangent points) = Inr rt"
    using assms lt
    by (cases "tangent_or right_tangent (estimate_right_tangent points)") simp_all
  have "fit_bezier (Suc fuel) points max_err left_tangent right_tangent
      = fit_bezier (Suc fuel) points max_err (Some lt) (Some rt)"
    by (simp add: lt rt tangent_or_Some)
  with assms show ?thesis by metis
qed

text \<open>
  Whenever \<open>fit_bezier\<close> returns, the result is a non-empty sequence of curves of 4
  control points, and the first and the last control point of each curve are points of
  the input.
\<close>

lemma fit_bezier_endpoints:
  "fit_bezier fuel points max_err left_tangent right_tangent = Some (Inr curves) \<Longrightarrow>
   curves \<noteq> [] \<and> (\<forall>c \<in> set curves. length c = 4 \<and> c ! 0 \<in> set points \<and> c ! 3 \<in> set points)"
proof (induction fuel arbitrary: points left_tangent right_tangent curves)
  case 0
  then show ?case by simp
next
  case (Suc fuel)
  from fit_bezier_tangents[OF Suc.prems] obtain lt rt where
    g: "fit_bezier (Suc fuel) points max_err (Some lt) (Some rt) = Some (Inr curves)" by blast
  show ?case
  proof (cases "length points = 2")
    case True
    then have "curves = [two_point_curve points lt rt]"
      using g by (simp add: fit_bezier_given del: fit_bezier.simps)
    then show ?thesis using True by (simp add: two_point_curve_def Let_def)
  next
    case False
    show ?thesis
    proof (cases "refine 32 points max_err lt rt Unset")
      case (Inl e)
      with g False show ?thesis by (simp add: fit_bezier_given del: fit_bezier.simps)
    next
      case (Inr ex)
      show ?thesis
      proof (cases ex)
        case (Success b)
        with Inr g False have c: "curves = [b]"
          by (simp add: fit_bezier_given del: fit_bezier.simps)
        from refine_Success_endpoints[of 32 points max_err lt rt Unset b] Inr Success
        have "length b = 4 \<and> b ! 0 = hd points \<and> b ! 3 = last points \<and> points \<noteq> []"
          by simp
        then show ?thesis unfolding c by simp
      next
        case (Subdivide how sp)
        from Inr Subdivide g False obtain ct left right where
          ct: "center_tangent_at points sp = Inr ct"
          and l: "fit_bezier fuel (take (sp + 1) points) max_err (Some lt) (Some ct)
                = Some (Inr left)"
          and r: "fit_bezier fuel (drop sp points) max_err (Some (vneg ct)) (Some rt)
                = Some (Inr right)"
          and c: "curves = left @ right"
          by (auto simp: fit_bezier_given subdivide_def simp del: fit_bezier.simps
              split: sum.splits option.splits)
        from Suc.IH[OF l] have L: "left \<noteq> []"
          "\<forall>c \<in> set left. length c = 4 \<and> c ! 0 \<in> set points \<and> c ! 3 \<in> set points"
          using set_take_subset[of "sp + 1" points] by auto
        from Suc.IH[OF r] have R:
          "\<forall>c \<in> set right. length c = 4 \<and> c ! 0 \<in> set points \<and> c ! 3 \<in> set points"
          using set_drop_subset[of sp points] by auto
        show ?thesis unfolding c using L R by auto
      qed
    qed
  qed
qed

subsection \<open>The split point when the parameters are numbers\<close>

text \<open>
  In the exact arithmetic of the model: when the total chord length is not \<open>0\<close>, the
  parameters of the first and of the
  last point are \<open>0\<close> and \<open>1\<close> in every round: a Newton-Raphson step leaves a parameter
  as it is where the curve meets the point. The squared errors of the first and the last
  point are then \<open>0\<close>, and for a positive \<open>max_err\<close> a split point, whose error is not
  below \<open>max_err\<close>, is neither of them.
\<close>

lemma fit_round_inside:
  assumes L: "3 \<le> length points" and m: "0 < max_err"
    and u: "length u = length points" "u ! 0 = 0" "u ! (length points - 1) = 1"
    and r: "fit_round points max_err lt rt u = Inr res"
  shows "(\<forall>sp. res = Break sp \<longrightarrow> 0 < sp \<and> sp + 1 < length points)
       \<and> (\<forall>b u' sp. res = Continue b u' sp \<longrightarrow>
            ends_pinned points (Vars b u' sp))"
proof -
  from L have ne: "points \<noteq> []" by auto
  from r obtain b where b: "generate_bezier points u lt rt = Inr b"
    by (auto simp: fit_round_def split: sum.splits)
  from generate_bezier_endpoints[OF b] have be: "length b = 4" "b ! 0 = hd points"
    "b ! 3 = last points" by auto
  let ?errs = "sq_errors b u points"
  let ?sp = "argmax ?errs"
  have len: "length ?errs = length points" by (rule length_sq_errors[OF u(1)])
  have e0: "?errs ! 0 = 0"
  proof (rule sq_errors_on_curve[OF u(1)])
    show "0 < length points" using L by arith
    show "evaluate b (u ! 0) = points ! 0"
      using evaluate_ends(1)[OF be(1)] be(2) u(2) ne by (simp add: hd_conv_nth)
  qed
  have e1: "?errs ! (length points - 1) = 0"
  proof (rule sq_errors_on_curve[OF u(1)])
    show "length points - 1 < length points" using L by arith
    show "evaluate b (u ! (length points - 1)) = points ! (length points - 1)"
      using evaluate_ends(2)[OF be(1)] be(3) u(3) ne by (simp add: last_conv_nth)
  qed
  have "?errs \<noteq> []" using len ne by (metis length_0_conv)
  then have splt: "?sp < length points"
    using argmax_less[of ?errs] len by simp
  have inside: "\<not> ?errs ! ?sp < max_err \<Longrightarrow> 0 < ?sp \<and> ?sp + 1 < length points"
  proof -
    assume "\<not> ?errs ! ?sp < max_err"
    then have pos: "0 < ?errs ! ?sp" using m by simp
    have "?sp \<noteq> 0"
    proof
      assume "?sp = 0"
      with pos e0 show False by simp
    qed
    moreover have "?sp \<noteq> length points - 1"
    proof
      assume "?sp = length points - 1"
      with pos e1 show False by simp
    qed
    ultimately show ?thesis using splt by arith
  qed
  have res: "res = (if ?errs ! ?sp < max_err then Return b
       else if max_err ^ 2 < ?errs ! ?sp then Break ?sp else Continue b u ?sp)"
    using r b by (auto simp: fit_round_def Let_def split: if_splits)
  show ?thesis
    using res inside be u by (auto simp: ends_pinned_def split: if_splits)
qed

lemma next_params_pinned:
  assumes "ends_pinned points vars" "next_params points vars = Inr (Params u)"
    "3 \<le> length points"
  shows "length u = length points \<and> u ! 0 = 0 \<and> u ! (length points - 1) = 1"
proof (cases vars)
  case Unset
  then show ?thesis using assms(2) chord_parameterize_ends by simp
next
  case (Vars b u0 sp)
  with assms(1) have p: "length b = 4" "b ! 0 = hd points" "b ! 3 = last points"
    "length u0 = length points" "u0 ! 0 = 0" "u0 ! (length points - 1) = 1"
    by (auto simp: ends_pinned_def)
  from assms(3) have ne: "points \<noteq> []" by auto
  from Vars assms(2) have u: "u = newton_raphson_root_find b points u0" by simp
  have "u ! 0 = u0 ! 0"
    unfolding u
  proof (rule newton_fixed[OF p(4)])
    show "0 < length points" using assms(3) by arith
    show "evaluate b (u0 ! 0) = points ! 0"
      using evaluate_ends(1)[OF p(1)] p(2,5) ne by (simp add: hd_conv_nth)
  qed
  moreover have "u ! (length points - 1) = u0 ! (length points - 1)"
    unfolding u
  proof (rule newton_fixed[OF p(4)])
    show "length points - 1 < length points" using assms(3) by arith
    show "evaluate b (u0 ! (length points - 1)) = points ! (length points - 1)"
      using evaluate_ends(2)[OF p(1)] p(3,6) ne by (simp add: last_conv_nth)
  qed
  ultimately show ?thesis using p u length_newton[OF p(4)] by simp
next
  case NaNVars
  then show ?thesis using assms(1) by (simp add: ends_pinned_def)
qed

lemma refine_split_inside:
  assumes "3 \<le> length points" "0 < max_err"
  shows "ends_pinned points vars \<Longrightarrow> chord_parameterize points \<noteq> Inr NaNs \<Longrightarrow>
     refine k points max_err lt rt vars = Inr (Subdivide how sp) \<Longrightarrow>
     0 < sp \<and> sp + 1 < length points"
proof (induction k arbitrary: vars)
  case 0
  then show ?case by (cases vars) (auto simp: ends_pinned_def)
next
  case (Suc k)
  show ?case
  proof (cases "next_params points vars")
    case (Inl e)
    with Suc.prems show ?thesis by simp
  next
    case (Inr ps)
    show ?thesis
    proof (cases ps)
      case NaNs
      with Inr Suc.prems(1,2) show ?thesis
        by (cases vars) (auto simp: ends_pinned_def)
    next
      case (Params u)
      from next_params_pinned[OF Suc.prems(1) _ assms(1)] Inr Params
      have pu: "length u = length points" "u ! 0 = 0" "u ! (length points - 1) = 1" by auto
      show ?thesis
      proof (cases "fit_round points max_err lt rt u")
        case (Inl e)
        with Inr Params Suc.prems show ?thesis by simp
      next
        case r: (Inr res)
        note fr = fit_round_inside[OF assms pu r]
        show ?thesis
        proof (cases res)
          case (Return b)
          with r Inr Params Suc.prems show ?thesis by simp
        next
          case (Break s)
          with r Inr Params Suc.prems(3) have "s = sp" by simp
          with fr Break show ?thesis by simp
        next
          case (Continue b u' s)
          with r Inr Params Suc.prems(3)
          have "refine k points max_err lt rt (Vars b u' s) = Inr (Subdivide how sp)" by simp
          moreover have "ends_pinned points (Vars b u' s)" using fr Continue by simp
          ultimately show ?thesis using Suc.IH Suc.prems(2) by blast
        qed
      qed
    qed
  qed
qed

lemma split_ranges_shorter:
  assumes "3 \<le> length points" and "0 < max_err"
    and "chord_parameterize points \<noteq> Inr NaNs"
    and "refine 32 points max_err lt rt Unset = Inr (Subdivide how sp)"
  shows "0 < sp \<and> sp + 1 < length points
       \<and> 2 \<le> length (take (sp + 1) points) \<and> length (take (sp + 1) points) < length points
       \<and> 2 \<le> length (drop sp points) \<and> length (drop sp points) < length points"
proof -
  have "ends_pinned points Unset" by (simp add: ends_pinned_def)
  from refine_split_inside[OF assms(1,2) this assms(3,4)]
  show ?thesis by auto
qed

end
